theory Spec2Isabelle
  imports Main "HOL-Library.Word"
begin

section \<open>RHI definitions\<close>

text \<open>
  The enumerations of \<^verbatim>\<open>RHI_Definition.h\<close> as the sources use them. Floats are kept as
  their 32-bit patterns: the functions below only copy them and compare them for equality.
  Equality of patterns is the C++ \<^verbatim>\<open>==\<close> on every float except a NaN (never equal to
  itself) and the two zeros (equal with different patterns).
\<close>

datatype RHI_CommandListState = Idle | Recording | Ended | Submitted

datatype RHI_Image_Layout =
    Undefined
  | General
  | Preinitialized
  | Color_Attachment_Optimal
  | Depth_Stencil_Attachment_Optimal
  | Depth_Stencil_Read_Only_Optimal
  | Shader_Read_Only_Optimal
  | Transfer_Src_Optimal
  | Transfer_Dst_Optimal
  | Present_Src

type_synonym float = "32 word"

datatype Vector4 = Vector4 float float float float

text \<open>
  What ends a call without a result: a failed \<^verbatim>\<open>SP_ASSERT\<close>, an index outside a
  \<^verbatim>\<open>std::array\<close> or \<^verbatim>\<open>std::vector\<close>, a call through a null pointer, a remainder by
  zero.
\<close>

datatype error = Assert_Failed | Out_Of_Range | Null_Dereference | Division_By_Zero

type_synonym tex_id = nat

section \<open>Textures and their per-mip layouts\<close>

record RHI_Texture =
  m_layout :: "RHI_Image_Layout list"
  m_mip_count :: "32 word"
  m_array_length :: "32 word"
  HasPerMipView :: bool
  Resource_View_Srv :: bool
  IsSrv :: bool
  IsUav :: bool
  IsColorFormat :: bool
  IsDepthFormat :: bool
  IsStencilFormat :: bool
  IsDepthStencilFormat :: bool
  CanBeCleared :: bool
  Resource :: bool
  Format :: nat
  Width :: "32 word"
  Height :: "32 word"

text \<open>The Vulkan commands a command buffer holds, in recording order.\<close>

datatype VkClearValue = ClearColor Vector4 | ClearDepthStencil float "32 word"

text \<open>
  A \<^verbatim>\<open>VkClearAttachment\<close>: the three aspect bits, \<^verbatim>\<open>colorAttachment\<close> (\<open>None\<close>
  where the code leaves the field unwritten) and the clear value.
\<close>

datatype VkClearAttachment =
  VkClearAttachment (aspect_color: bool) (aspect_depth: bool) (aspect_stencil: bool)
    (colorAttachment: "nat option") (clearValue: VkClearValue)

datatype vk_cmd =
    Vk_PipelineBarrier tex_id "32 word" "32 word" "32 word" RHI_Image_Layout RHI_Image_Layout
  | Vk_BeginRenderPass "VkClearValue list"
  | Vk_EndRenderPass
  | Vk_ClearAttachments "VkClearAttachment list" "32 word" "32 word"
  | Vk_ClearColorImage tex_id Vector4
  | Vk_ClearDepthStencilImage tex_id float "32 word"
  | Vk_Draw "32 word"
  | Vk_DrawIndexed "32 word" "32 word" "32 word"
  | Vk_Dispatch "32 word" "32 word" "32 word"
  | Vk_BindPipeline
  | Vk_BindDescriptorSets
  | Vk_MarkerBegin string
  | Vk_MarkerEnd
  | Vk_BeginCommandBuffer
  | Vk_EndCommandBuffer
  | Vk_ResetCommandBuffer
  | Vk_ResetQueryPool
  | Vk_WriteTimestamp "32 word"
  | Vk_BlitImage tex_id tex_id
  | Vk_SetViewport
  | Vk_SetScissor
  | Vk_BindVertexBuffers nat "64 word"
  | Vk_BindIndexBuffer nat "64 word"


section \<open>Pipeline state, command list and its surroundings\<close>

text \<open>
  The fields of \<^verbatim>\<open>RHI_PipelineState\<close> the command list reads. The bodies of
  \<^verbatim>\<open>HasClearValues\<close>, \<^verbatim>\<open>IsCompute\<close>, \<^verbatim>\<open>GetRenderPass\<close>, \<^verbatim>\<open>GetFrameBuffer\<close>,
  \<^verbatim>\<open>GetWidth\<close> and \<^verbatim>\<open>GetHeight\<close> are not part of the sources, so their results are
  fields; a pointer that is only tested against null is a \<open>bool\<close>. The arrays
  \<^verbatim>\<open>render_target_color_textures\<close> and \<^verbatim>\<open>clear_color\<close> both have
  \<^verbatim>\<open>rhi_max_render_target_count\<close> entries.
\<close>

record RHI_PipelineState =
  render_target_color_textures :: "tex_id option list"
  render_target_depth_texture :: "tex_id option"
  render_target_swapchain :: bool
  clear_color :: "Vector4 list"
  clear_depth :: float
  clear_stencil :: "32 word"
  IsCompute :: bool
  HasClearValues :: bool
  GetRenderPass :: bool
  GetFrameBuffer :: bool
  GetWidth :: "32 word"
  GetHeight :: "32 word"
  pass_name :: "string option"
  profile :: bool
  mark :: bool

record RHI_Pipeline =
  GetPipelineState :: "RHI_PipelineState option"
  GetPipeline :: bool

record RHI_CommandList =
  m_state :: RHI_CommandListState
  m_flushed :: bool
  m_discard :: bool
  m_render_pass_active :: bool
  m_pipeline_active :: bool
  m_pipeline :: "RHI_Pipeline option"
  m_pipeline_state :: "RHI_PipelineState option"
  m_vertex_buffer_id :: nat
  m_vertex_buffer_offset :: "64 word"
  m_index_buffer_id :: nat
  m_index_buffer_offset :: "64 word"
  m_resource :: bool
  m_query_pool :: bool
  m_timestamp_index :: "32 word"
  vk_calls :: "vk_cmd list"

datatype log_entry = LOG_ERROR string | LOG_WARNING string | LOG_INFO string

datatype constant_buffer = cb_frame_gpu | cb_uber_gpu | cb_light_gpu | cb_material_gpu

datatype sampler =
    sampler_compare_depth | sampler_point_clamp | sampler_point_wrap | sampler_bilinear_clamp
  | sampler_bilinear_wrap | sampler_trilinear_clamp | sampler_anisotropic_wrap

text \<open>The calls made to the descriptor set layout cache, whose code is not part of the sources.\<close>

datatype descriptor_call =
    Cache_SetPipelineState
  | Cache_SetConstantBuffer nat constant_buffer
  | Cache_SetSampler nat sampler
  | Cache_SetTexture nat tex_id "32 word" bool
  | Cache_SetStructuredBuffer nat nat
  | Cache_GrowIfNeeded
  | Cache_Reset

text \<open>
  The constants of \<^verbatim>\<open>RHI_Definition.h\<close> and \<^verbatim>\<open>Renderer_Enums.h\<close> that the functions
  below compare with or pass on; the headers are not part of the sources.
\<close>

record RHI_Definition =
  rhi_color_load :: Vector4
  rhi_depth_load :: float
  rhi_depth_dont_care :: float
  rhi_stencil_load :: "32 word"
  rhi_stencil_dont_care :: "32 word"
  RendererBindings_Cb_frame :: nat
  RendererBindings_Cb_uber :: nat
  RendererBindings_Cb_light :: nat
  RendererBindings_Cb_material :: nat
  RendererBindings_Srv_noise_normal :: nat
  RendererBindings_Srv_noise_blue :: nat

text \<open>
  What a command list reaches through its pointers: the textures (a store, since several
  pointers may name one texture), the renderer's default textures, the swap chain's
  \<^verbatim>\<open>PresentEnabled\<close>, the descriptor set layout cache, the log, the flags of the RHI
  context and the profiler's counters.
\<close>

record rhi_env =
  defs :: RHI_Definition
  textures :: "tex_id \<Rightarrow> RHI_Texture"
  DefaultTextureTransparent :: tex_id
  m_tex_default_noise_normal :: "tex_id option"
  m_tex_default_noise_blue :: "tex_id option"
  PresentEnabled :: bool
  CurrentDescriptorSetLayout :: bool
  descriptor_calls :: "descriptor_call list"
  log_entries :: "log_entry list"
  context_profiler :: bool
  context_markers :: bool
  m_rhi_pipeline_barriers :: nat
  m_rhi_draw :: nat
  m_rhi_dispatch :: nat
  m_rhi_bindings_buffer_vertex :: nat
  m_rhi_bindings_buffer_index :: nat
  m_rhi_bindings_pipeline :: nat
  m_rhi_bindings_descriptor_set :: nat
  time_blocks_started :: nat
  time_blocks_ended :: nat

type_synonym cmd_ctx = "RHI_CommandList \<times> rhi_env"

text \<open>
  The results of the calls into the driver and into code outside the sources, one field per
  call site: whether \<^verbatim>\<open>vkBeginCommandBuffer\<close>, \<^verbatim>\<open>vkEndCommandBuffer\<close>,
  \<^verbatim>\<open>vkResetCommandBuffer\<close> and \<^verbatim>\<open>QueueSubmit\<close> succeed, whether the fence wait
  returns in time, whether the processed semaphore is idle, which pipeline
  \<^verbatim>\<open>GetPipeline\<close> returns, whether a descriptor set layout is current after
  \<^verbatim>\<open>SetPipelineState\<close>, what \<^verbatim>\<open>GetDescriptorSet\<close> returns (its result and the
  descriptor set: \<open>None\<close> for null, otherwise whether its resource is non-null), whether
  a constant buffer's \<^verbatim>\<open>Create\<close>, \<^verbatim>\<open>Map\<close> and \<^verbatim>\<open>Unmap\<close> succeed, and whether
  \<^verbatim>\<open>Queue_WaitAll\<close> does.
\<close>

record driver =
  vkBeginCommandBuffer_ok :: bool
  vkEndCommandBuffer_ok :: bool
  vkResetCommandBuffer_ok :: bool
  QueueSubmit_ok :: bool
  fence_Wait_ok :: bool
  processed_semaphore_idle :: bool
  GetPipeline_result :: "RHI_Pipeline option"
  layout_after_SetPipelineState :: bool
  GetDescriptorSet_result :: bool
  GetDescriptorSet_set :: "bool option"
  Create_ok :: bool
  Map_ok :: bool
  Unmap_ok :: bool
  Queue_WaitAll_ok :: bool

definition SP_ASSERT :: "bool \<Rightarrow> (error + 'a) \<Rightarrow> error + 'a" where
  "SP_ASSERT c k = (if c then k else Inl Assert_Failed)"

definition then_do :: "(error + 'a) \<Rightarrow> ('a \<Rightarrow> error + 'b) \<Rightarrow> error + 'b" where
  "then_do m f = (case m of Inl e \<Rightarrow> Inl e | Inr a \<Rightarrow> f a)"

definition record_cmd :: "vk_cmd \<Rightarrow> RHI_CommandList \<Rightarrow> RHI_CommandList" where
  "record_cmd c cl = cl\<lparr>vk_calls := vk_calls cl @ [c]\<rparr>"

definition log_msg :: "log_entry \<Rightarrow> rhi_env \<Rightarrow> rhi_env" where
  "log_msg m env = env\<lparr>log_entries := log_entries env @ [m]\<rparr>"

definition cache_call :: "descriptor_call \<Rightarrow> rhi_env \<Rightarrow> rhi_env" where
  "cache_call c env = env\<lparr>descriptor_calls := descriptor_calls env @ [c]\<rparr>"

subsection \<open>\<^verbatim>\<open>RHI_Texture::SetLayout\<close>\<close>

text \<open>
  \<^verbatim>\<open>RHI_Texture::SetLayout\<close> writes \<^verbatim>\<open>m_layout[i]\<close> for
  \<^verbatim>\<open>i = mip_start .. mip_start + mip_range - 1\<close>; the array has twelve entries and an
  access past its end is an error of the model.
\<close>

function update_layouts ::
  "nat \<Rightarrow> nat \<Rightarrow> RHI_Image_Layout \<Rightarrow> RHI_Image_Layout list \<Rightarrow> error + RHI_Image_Layout list"
where
  "update_layouts i e new_layout ls =
     (if i < e then
        (if i < length ls then update_layouts (Suc i) e new_layout (ls[i := new_layout])
         else Inl Out_Of_Range)
      else Inr ls)"
  by pat_completeness auto
termination
  by (relation "measure (\<lambda>(i, e, n, ls). e - i)") auto

declare update_layouts.simps [simp del]

definition GetLayout :: "RHI_Texture \<Rightarrow> 32 word \<Rightarrow> error + RHI_Image_Layout" where
  "GetLayout t mip =
     (if unat mip < length (m_layout t) then Inr (m_layout t ! unat mip) else Inl Out_Of_Range)"

text \<open>
  \<open>this\<close> is the texture the method is called on, \<open>cmd_list\<close> the command list it is
  given (\<open>None\<close> for a null pointer); \<open>mip\<close> is the C++ \<^verbatim>\<open>int\<close> as its 32 bits, so
  \<open>- 1\<close> is the default "all mips" and the conversions to \<^verbatim>\<open>uint32_t\<close> are the
  identity.
\<close>

definition SetLayout ::
  "tex_id \<Rightarrow> RHI_Image_Layout \<Rightarrow> RHI_CommandList option \<Rightarrow> 32 word \<Rightarrow> bool \<Rightarrow> rhi_env \<Rightarrow>
     error + (RHI_CommandList option \<times> rhi_env)"
where
  "SetLayout this new_layout cmd_list mip ranged env =
     (let t = textures env this;
          individual_mip_requested = (mip \<noteq> - 1)
      in SP_ASSERT (individual_mip_requested \<longrightarrow> HasPerMipView t)
           (let mip_start = (if individual_mip_requested then mip else 0);
                mip_range = (if ranged
                             then (if individual_mip_requested then m_mip_count t - mip
                                   else m_mip_count t)
                             else 1)
            in then_do (GetLayout t mip_start) (\<lambda>current_layout.
                 if current_layout = Undefined then Inr (cmd_list, env)
                 else if current_layout = new_layout then Inr (cmd_list, env)
                 else
                   let (cmd_list1, env1) =
                         (case cmd_list of
                            None \<Rightarrow> (None, env)
                          | Some cl \<Rightarrow>
                              (Some (record_cmd (Vk_PipelineBarrier this mip_start mip_range
                                       (m_array_length t) current_layout new_layout) cl),
                               env\<lparr>m_rhi_pipeline_barriers := m_rhi_pipeline_barriers env + 1\<rparr>))
                   in then_do (update_layouts (unat mip_start) (unat (mip_start + mip_range))
                                 new_layout (m_layout t)) (\<lambda>ls.
                        Inr (cmd_list1,
                             env1\<lparr>textures := (textures env1)(this := t\<lparr>m_layout := ls\<rparr>)\<rparr>)))))"



subsection \<open>\<^verbatim>\<open>RHI_CommandList\<close>: life cycle\<close>

text \<open>
  \<open>vk_calls\<close> is the list of commands the calls on \<^verbatim>\<open>m_resource\<close> have recorded. The
  fence, the semaphore and the timestamps read back from the query pool belong to the
  driver and are not state of the model. \<^verbatim>\<open>Wait\<close> is the one of
  \<^verbatim>\<open>RHI_CommandList.cpp\<close>, which returns nothing.
\<close>

fun Wait :: "driver \<Rightarrow> cmd_ctx \<Rightarrow> error + cmd_ctx" where
  "Wait d (cl, env) =
     SP_ASSERT (m_state cl = Submitted)
    (SP_ASSERT (fence_Wait_ok d)
    (Inr (cl\<lparr>m_state := Idle\<rparr>, cache_call Cache_GrowIfNeeded env)))"

fun Begin :: "driver \<Rightarrow> cmd_ctx \<Rightarrow> error + (bool \<times> cmd_ctx)" where
  "Begin d (cl, env) =
     then_do (if m_state cl = Submitted then Wait d (cl, env) else Inr (cl, env)) (\<lambda>(cl, env).
       SP_ASSERT (m_resource cl)
      (SP_ASSERT (m_state cl = Idle)
      (let cl = cl\<lparr>m_timestamp_index := 0\<rparr>
       in if \<not> vkBeginCommandBuffer_ok d then Inr (False, cl, env)
          else Inr (True,
                 (record_cmd Vk_ResetQueryPool (record_cmd Vk_BeginCommandBuffer cl))
                   \<lparr>m_state := Recording, m_flushed := False\<rparr>, env))))"

fun End :: "driver \<Rightarrow> cmd_ctx \<Rightarrow> error + (bool \<times> cmd_ctx)" where
  "End d (cl, env) =
     SP_ASSERT (m_state cl = Recording)
    (if \<not> vkEndCommandBuffer_ok d then Inr (False, cl, env)
     else Inr (True, (record_cmd Vk_EndCommandBuffer cl)\<lparr>m_state := Ended\<rparr>, env))"

definition renders_to_swapchain :: "RHI_CommandList \<Rightarrow> bool" where
  "renders_to_swapchain cl =
     (case m_pipeline cl of
        None \<Rightarrow> False
      | Some p \<Rightarrow> (case GetPipelineState p of
                     None \<Rightarrow> False
                   | Some state \<Rightarrow> render_target_swapchain state))"

fun Submit :: "driver \<Rightarrow> cmd_ctx \<Rightarrow> error + (bool \<times> cmd_ctx)" where
  "Submit d (cl, env) =
     SP_ASSERT (m_state cl = Ended)
    (if renders_to_swapchain cl \<and> \<not> PresentEnabled env
     then Inr (True, cl\<lparr>m_state := Submitted\<rparr>, env)
     else SP_ASSERT (renders_to_swapchain cl \<longrightarrow> processed_semaphore_idle d)
           (if \<not> QueueSubmit_ok d
            then Inr (False, cl, log_msg (LOG_ERROR ''Failed to submit the command list.'') env)
            else Inr (True, cl\<lparr>m_state := Submitted\<rparr>, env)))"



fun Flush :: "driver \<Rightarrow> bool \<Rightarrow> cmd_ctx \<Rightarrow> error + (bool \<times> cmd_ctx)" where
  "Flush d restore_pipeline_state_after_flush (cl, env) =
     (if m_state cl = Idle then Inr (True, cl, env)
      else
        let was_recording = (m_state cl = Recording)
        in then_do (if m_state cl = Recording then End d (cl, env) else Inr (True, cl, env))
             (\<lambda>(ended, cl, env).
           if \<not> ended then Inr (False, cl, env)
           else then_do (if m_state cl = Ended then Submit d (cl, env) else Inr (True, cl, env))
             (\<lambda>(submitted, cl, env).
           if \<not> submitted then Inr (False, cl, env)
           else then_do (Wait d (cl, env)) (\<lambda>(cl, env).
                then_do (if restore_pipeline_state_after_flush \<and> m_state cl = Idle \<and> was_recording
                         then Begin d (cl, env) else Inr (True, cl, env))
             (\<lambda>(_, cl, env). Inr (True, cl\<lparr>m_flushed := True\<rparr>, env))))))"

subsection \<open>\<^verbatim>\<open>RHI_CommandList\<close>: render passes\<close>










subsection \<open>\<^verbatim>\<open>RHI_CommandList\<close>: draws and dispatches\<close>







subsection \<open>\<^verbatim>\<open>RHI_CommandList\<close>: resource binding\<close>





fun SetConstantBuffer :: "nat \<Rightarrow> constant_buffer \<Rightarrow> cmd_ctx \<Rightarrow> error + cmd_ctx" where
  "SetConstantBuffer slot cb (cl, env) =
     SP_ASSERT (m_state cl = Recording)
    (if \<not> CurrentDescriptorSetLayout env
     then Inr (cl, log_msg (LOG_WARNING ''Descriptor layout not set, try setting constant buffer within a render pass'') env)
     else Inr (cl, cache_call (Cache_SetConstantBuffer slot cb) env))"














subsection \<open>Sequences of command list calls\<close>







section \<open>The renderer\<close>

subsection \<open>Dynamic constant buffers\<close>

text \<open>
  Modelled from the spec: \<^verbatim>\<open>Math::Helper::NextPowerOfTwo\<close> (\<^verbatim>\<open>MathHelper.h\<close> is not part
  of the sources). The spec says of the growth that "the buffer capacity after growth is the
  smallest power of two \<open>\<ge>\<close> requested index + 1": the function doubles from one until it
  reaches its argument, and the result is cut to 32 bits.
\<close>

function next_power_of_two_from :: "nat \<Rightarrow> nat \<Rightarrow> nat" where
  "next_power_of_two_from p n =
     (if n \<le> p \<or> p = 0 then p else next_power_of_two_from (2 * p) n)"
  by pat_completeness auto
termination
  by (relation "measure (\<lambda>(p, n). n - p)") auto

declare next_power_of_two_from.simps [simp del]

definition NextPowerOfTwo :: "32 word \<Rightarrow> 32 word" where
  "NextPowerOfTwo v = of_nat (next_power_of_two_from 1 (unat v))"

text \<open>
  Modelled from the spec: \<^verbatim>\<open>RHI_ConstantBuffer\<close> (its header and implementation are not
  part of the sources), "a GPU buffer with N offset slots": whether it is dynamic, its number
  of offsets, its stride, the dynamic offset index last set and the mapped memory, as the
  struct written at each byte offset. \<^verbatim>\<open>Create\<close> makes a buffer with the requested number
  of offsets.
\<close>

record 'T RHI_ConstantBuffer =
  IsDynamic :: bool
  OffsetCount :: "32 word"
  Stride :: "64 word"
  OffsetIndexDynamic :: "32 word"
  memory :: "64 word \<Rightarrow> 'T option"

definition Create :: "32 word \<Rightarrow> 'T RHI_ConstantBuffer \<Rightarrow> 'T RHI_ConstantBuffer" where
  "Create offset_count b = b\<lparr>OffsetCount := offset_count, memory := (\<lambda>_. None)\<rparr>"

text \<open>
  A uniform block of the renderer: the CPU struct, its value at the last upload, the GPU
  buffer and the offset index (\<^verbatim>\<open>m_cb_frame_cpu\<close>, \<^verbatim>\<open>m_cb_frame_cpu_previous\<close>,
  \<^verbatim>\<open>m_cb_frame_gpu\<close>, \<^verbatim>\<open>m_cb_frame_offset_index\<close>, and the same for uber, light and
  material).

  Modelled from the spec: the structs' \<^verbatim>\<open>operator==\<close> (\<^verbatim>\<open>Renderer_ConstantBuffers.h\<close> is
  not part of the sources) compares "bit-for-bit", which is equality of the model's values.
\<close>

record 'T cb_block =
  cpu :: 'T
  cpu_previous :: 'T
  gpu :: "'T RHI_ConstantBuffer"
  offset_index :: "32 word"

fun log_ctx :: "log_entry \<Rightarrow> cmd_ctx \<Rightarrow> cmd_ctx" where
  "log_ctx m (cl, env) = (cl, log_msg m env)"

definition update_dynamic_buffer ::
  "driver \<Rightarrow> cmd_ctx \<Rightarrow> 'T cb_block \<Rightarrow> error + (bool \<times> cmd_ctx \<times> 'T cb_block)"
where
  "update_dynamic_buffer d cmd_list b =
     (if cpu b = cpu_previous b then Inr (True, cmd_list, b)
      else
        let b = b\<lparr>offset_index := offset_index b + 1\<rparr>
        in then_do
             (if IsDynamic (gpu b) \<and> OffsetCount (gpu b) \<le> offset_index b
              then then_do (Flush d True cmd_list) (\<lambda>(_, cmd_list).
                     let new_size = NextPowerOfTwo (offset_index b + 1)
                     in if \<not> Create_ok d
                        then Inr (False, log_ctx (LOG_ERROR ''Failed to re-allocate buffer'') cmd_list, b)
                        else Inr (True, log_ctx (LOG_INFO ''Increased buffer offsets'') cmd_list,
                                  b\<lparr>gpu := Create new_size (gpu b)\<rparr>))
              else Inr (True, cmd_list, b)) (\<lambda>(ok, cmd_list, b).
           if \<not> ok then Inr (False, cmd_list, b)
           else
             let b = (if IsDynamic (gpu b)
                      then b\<lparr>gpu := (gpu b)\<lparr>OffsetIndexDynamic := offset_index b\<rparr>\<rparr> else b)
             in if \<not> Map_ok d
                then Inr (False, log_ctx (LOG_ERROR ''Failed to map buffer'') cmd_list, b)
                else
                  let size = Stride (gpu b);
                      offset = ucast (offset_index b) * size;
                      g = (if IsDynamic (gpu b)
                           then (gpu b)\<lparr>memory := (memory (gpu b))(offset := Some (cpu b))\<rparr>
                           else (gpu b)\<lparr>memory := (memory (gpu b))(0 := Some (cpu b))\<rparr>)
                  in Inr (Unmap_ok d, cmd_list, b\<lparr>gpu := g, cpu_previous := cpu b\<rparr>)))"

subsection \<open>Entities\<close>

type_synonym Vector3 = "float \<times> float \<times> float"

record Material =
  GetColorAlbedo :: Vector4

record Renderable =
  GetMaterial :: "Material option"
  GetAabbCenter :: Vector3

datatype LightType = Directional | Point | Spot

record Light =
  GetLightType :: LightType
  GetIntensity :: float

record Camera =
  GetClearColor :: Vector4
  GetPosition :: Vector3

record Entity =
  IsActive :: bool
  GetRenderable :: "Renderable option"
  GetLight :: "Light option"
  GetCamera :: "Camera option"

datatype Renderer_ObjectType =
  Object_GeometryOpaque | Object_GeometryTransparent | Object_Light | Object_Camera

text \<open>
  The float arithmetic of the math library is outside the model. \<^verbatim>\<open>RenderablesSort\<close>
  compares the squared distances \<^verbatim>\<open>(center - position).LengthSquared()\<close>, so the function
  that computes them is a parameter \<open>dist2\<close> with values in a linear order;
  \<^verbatim>\<open>OnRenderablesAcquire\<close> tests \<^verbatim>\<open>GetColorAlbedo().w < 1.0f\<close>, so the test on the float
  is a parameter \<open>below_one\<close>. \<^verbatim>\<open>std::sort\<close> is an insertion sort on the distances.
\<close>

definition comparison_op ::
  "(Vector3 \<Rightarrow> Vector3 \<Rightarrow> 'k::{linorder,zero}) \<Rightarrow> Camera \<Rightarrow> Entity \<Rightarrow> 'k"
where
  "comparison_op dist2 cam entity =
     (case GetRenderable entity of
        None \<Rightarrow> 0
      | Some renderable \<Rightarrow> dist2 (GetAabbCenter renderable) (GetPosition cam))"

definition RenderablesSort ::
  "(Vector3 \<Rightarrow> Vector3 \<Rightarrow> 'k::{linorder,zero}) \<Rightarrow> Camera option \<Rightarrow> Entity list \<Rightarrow> Entity list"
where
  "RenderablesSort dist2 camera renderables =
     (case camera of
        None \<Rightarrow> renderables
      | Some cam \<Rightarrow>
          if length renderables \<le> 2 then renderables
          else sort_key (comparison_op dist2 cam) renderables)"

fun w_of :: "Vector4 \<Rightarrow> float" where
  "w_of (Vector4 vx vy vz vw) = vw"

definition acquire_entity ::
  "(float \<Rightarrow> bool) \<Rightarrow> (Renderer_ObjectType \<Rightarrow> Entity list) \<times> Camera option \<Rightarrow> Entity option \<Rightarrow>
     (Renderer_ObjectType \<Rightarrow> Entity list) \<times> Camera option"
where
  "acquire_entity below_one = (\<lambda>(entities, camera) e.
     case e of
       None \<Rightarrow> (entities, camera)
     | Some entity \<Rightarrow>
         if \<not> IsActive entity then (entities, camera)
         else
           let entities1 =
                 (case GetRenderable entity of
                    None \<Rightarrow> entities
                  | Some renderable \<Rightarrow>
                      let is_transparent =
                            (case GetMaterial renderable of
                               None \<Rightarrow> False
                             | Some material \<Rightarrow> below_one (w_of (GetColorAlbedo material)));
                          bucket = (if is_transparent then Object_GeometryTransparent
                                    else Object_GeometryOpaque)
                      in entities(bucket := entities bucket @ [entity]));
               entities2 =
                 (case GetLight entity of
                    None \<Rightarrow> entities1
                  | Some l \<Rightarrow> entities1(Object_Light := entities1 Object_Light @ [entity]))
           in (case GetCamera entity of
                 None \<Rightarrow> (entities2, camera)
               | Some c \<Rightarrow>
                   (entities2(Object_Camera := entities2 Object_Camera @ [entity]), Some c)))"

text \<open>
  \<^verbatim>\<open>OnRenderablesAcquire\<close> clears the buckets and the camera, walks the entities, and sorts
  the opaque and the transparent bucket. It returns the new \<^verbatim>\<open>m_entities\<close> and
  \<^verbatim>\<open>m_camera\<close>.
\<close>

definition OnRenderablesAcquire ::
  "(Vector3 \<Rightarrow> Vector3 \<Rightarrow> 'k::{linorder,zero}) \<Rightarrow> (float \<Rightarrow> bool) \<Rightarrow> Entity option list \<Rightarrow>
     (Renderer_ObjectType \<Rightarrow> Entity list) \<times> Camera option"
where
  "OnRenderablesAcquire dist2 below_one entities =
     (let (m_entities, m_camera) = foldl (acquire_entity below_one) (\<lambda>_. [], None) entities;
          m_entities = m_entities(Object_GeometryOpaque :=
                         RenderablesSort dist2 m_camera (m_entities Object_GeometryOpaque));
          m_entities = m_entities(Object_GeometryTransparent :=
                         RenderablesSort dist2 m_camera (m_entities Object_GeometryTransparent))
      in (m_entities, m_camera))"


subsection \<open>The renderer's state\<close>

text \<open>
  \<^verbatim>\<open>Cb_Frame\<close>: the integer members and the directional light intensity that
  \<^verbatim>\<open>Update_Cb_Frame\<close> writes are fields; the matrices, vectors and scalars that
  \<^verbatim>\<open>OnTick\<close> computes with float arithmetic are gathered in \<open>members\<close>. The structs of
  the other three blocks are their bytes.
\<close>

record Cb_Frame =
  frame :: "32 word"
  frame_mip_count :: "32 word"
  ssr_mip_count :: "32 word"
  directional_light_intensity :: float
  members :: "float list"

type_synonym cb_bytes = "8 word list"

record Renderer =
  m_rhi_device_initialised :: bool
  m_swap_chain_created :: bool
  m_swap_chain_width :: "32 word"
  m_swap_chain_height :: "32 word"
  m_flush_requested :: bool
  m_is_rendering_allowed :: bool
  m_cmd_lists :: "RHI_CommandList list"
  m_cmd_index :: "32 word"
  m_cmd_current :: "nat option"
  m_camera :: "Camera option"
  m_entities :: "Renderer_ObjectType \<Rightarrow> Entity list"
  m_cb_frame :: "Cb_Frame cb_block"
  m_cb_uber :: "cb_bytes cb_block"
  m_cb_light :: "cb_bytes cb_block"
  m_cb_material :: "cb_bytes cb_block"
  m_frame_num :: "64 word"
  m_is_odd_frame :: bool
  rt_Frame_Output :: "tex_id option"
  rt_Frame_Render :: "tex_id option"
  rt_Ssr :: "tex_id option"

text \<open>What a tick reads from the window.\<close>

record tick_input =
  window_IsMinimised :: bool
  window_Width :: "32 word"
  window_Height :: "32 word"

text \<open>
  The code the renderer calls that is outside the sources or outside the model: the
  default-constructed \<^verbatim>\<open>RHI_PipelineState\<close>; the float members of \<^verbatim>\<open>Cb_Frame\<close> as
  \<^verbatim>\<open>OnTick\<close> computes them from the camera, the options, the timer and the renderer; the
  members \<^verbatim>\<open>Update_Cb_Light\<close> and \<^verbatim>\<open>Update_Cb_Material\<close> fill in; and the passes of
  \<^verbatim>\<open>Pass_Main\<close> before and after \<^verbatim>\<open>Pass_UpdateFrameBuffer\<close>, which record into the
  command list and update the uber, light and material blocks.
\<close>

record outside =
  default_pipeline_state :: RHI_PipelineState
  frame_members :: "tick_input \<Rightarrow> Renderer \<Rightarrow> float list"
  light_members :: "Light \<Rightarrow> Renderer \<Rightarrow> cb_bytes"
  material_members :: "Renderer \<Rightarrow> cb_bytes"
  Pass_Generate_Mips ::
    "Renderer \<Rightarrow> cmd_ctx \<Rightarrow>
       error + (cmd_ctx \<times> cb_bytes cb_block \<times> cb_bytes cb_block \<times> cb_bytes cb_block)"
  remaining_passes ::
    "Renderer \<Rightarrow> cmd_ctx \<Rightarrow>
       error + (cmd_ctx \<times> cb_bytes cb_block \<times> cb_bytes cb_block \<times> cb_bytes cb_block)"

subsection \<open>The four uniform blocks\<close>

definition directional_intensity :: "Entity list \<Rightarrow> float \<Rightarrow> float" where
  "directional_intensity lights current =
     foldl (\<lambda>v entity.
              case GetLight entity of
                None \<Rightarrow> v
              | Some l \<Rightarrow> if GetLightType l = Directional then GetIntensity l else v)
       current lights"

definition Update_Cb_Frame ::
  "driver \<Rightarrow> cmd_ctx \<Rightarrow> Renderer \<Rightarrow> error + (bool \<times> cmd_ctx \<times> Renderer)"
where
  "Update_Cb_Frame d cmd_list r =
     (let b = m_cb_frame r;
          b = b\<lparr>cpu := (cpu b)\<lparr>directional_light_intensity :=
                  directional_intensity (m_entities r Object_Light)
                    (directional_light_intensity (cpu b))\<rparr>\<rparr>
      in then_do (update_dynamic_buffer d cmd_list b) (\<lambda>(ok, cmd_list, b).
           let r = r\<lparr>m_cb_frame := b\<rparr>
           in if \<not> ok then Inr (False, cmd_list, r)
              else then_do (SetConstantBuffer (RendererBindings_Cb_frame (defs (snd cmd_list)))
                              cb_frame_gpu cmd_list) (\<lambda>cmd_list.
                     Inr (True, cmd_list, r))))"

definition Update_Cb_Uber ::
  "driver \<Rightarrow> cmd_ctx \<Rightarrow> Renderer \<Rightarrow> error + (bool \<times> cmd_ctx \<times> Renderer)"
where
  "Update_Cb_Uber d cmd_list r =
     then_do (update_dynamic_buffer d cmd_list (m_cb_uber r)) (\<lambda>(ok, cmd_list, b).
       let r = r\<lparr>m_cb_uber := b\<rparr>
       in if \<not> ok then Inr (False, cmd_list, r)
          else then_do (SetConstantBuffer (RendererBindings_Cb_uber (defs (snd cmd_list)))
                          cb_uber_gpu cmd_list) (\<lambda>cmd_list.
                 Inr (True, cmd_list, r)))"

definition Update_Cb_Light ::
  "outside \<Rightarrow> driver \<Rightarrow> cmd_ctx \<Rightarrow> Light option \<Rightarrow> Renderer \<Rightarrow>
     error + (bool \<times> cmd_ctx \<times> Renderer)"
where
  "Update_Cb_Light out d cmd_list light r =
     (case light of
        None \<Rightarrow> Inr (False, log_ctx (LOG_ERROR ''Invalid light'') cmd_list, r)
      | Some l \<Rightarrow>
          if m_camera r = None then Inl Null_Dereference
          else
            let b = (m_cb_light r)\<lparr>cpu := light_members out l r\<rparr>
            in then_do (update_dynamic_buffer d cmd_list b) (\<lambda>(ok, cmd_list, b).
                 let r = r\<lparr>m_cb_light := b\<rparr>
                 in if \<not> ok then Inr (False, cmd_list, r)
                    else then_do (SetConstantBuffer
                                    (RendererBindings_Cb_light (defs (snd cmd_list)))
                                    cb_light_gpu cmd_list) (\<lambda>cmd_list.
                           Inr (True, cmd_list, r))))"

definition Update_Cb_Material ::
  "outside \<Rightarrow> driver \<Rightarrow> cmd_ctx \<Rightarrow> Renderer \<Rightarrow> error + (bool \<times> cmd_ctx \<times> Renderer)"
where
  "Update_Cb_Material out d cmd_list r =
     (let b = (m_cb_material r)\<lparr>cpu := material_members out r\<rparr>
      in then_do (update_dynamic_buffer d cmd_list b) (\<lambda>(ok, cmd_list, b).
           let r = r\<lparr>m_cb_material := b\<rparr>
           in if \<not> ok then Inr (False, cmd_list, r)
              else then_do (SetConstantBuffer
                              (RendererBindings_Cb_material (defs (snd cmd_list)))
                              cb_material_gpu cmd_list) (\<lambda>cmd_list.
                     Inr (True, cmd_list, r))))"

subsection \<open>\<^verbatim>\<open>Renderer::OnTick\<close>\<close>






fun set_blocks ::
  "cb_bytes cb_block \<times> cb_bytes cb_block \<times> cb_bytes cb_block \<Rightarrow> Renderer \<Rightarrow> Renderer"
where
  "set_blocks (u, l, m) r = r\<lparr>m_cb_uber := u, m_cb_light := l, m_cb_material := m\<rparr>"







definition advance_frame :: "Renderer \<Rightarrow> Renderer" where
  "advance_frame r =
     (let r = r\<lparr>m_frame_num := m_frame_num r + 1\<rparr>
      in r\<lparr>m_is_odd_frame := (m_frame_num r mod 2 = 1)\<rparr>)"


section \<open>Example states\<close>

text \<open>Concrete values on which the theorems below are instantiated.\<close>

definition example_texture :: RHI_Texture where
  "example_texture =
     \<lparr>m_layout = replicate 12 Shader_Read_Only_Optimal, m_mip_count = 1, m_array_length = 1,
      HasPerMipView = False, Resource_View_Srv = True, IsSrv = True, IsUav = False,
      IsColorFormat = True, IsDepthFormat = False, IsStencilFormat = False,
      IsDepthStencilFormat = False, CanBeCleared = True, Resource = True, Format = 0,
      Width = 4, Height = 4\<rparr>"

definition example_defs :: RHI_Definition where
  "example_defs =
     \<lparr>rhi_color_load = Vector4 0x7F800000 0 0 0, rhi_depth_load = 0x7F800000,
      rhi_depth_dont_care = 0xFF800000, rhi_stencil_load = 0xFFFFFFFF,
      rhi_stencil_dont_care = 0xFFFFFFFE,
      RendererBindings_Cb_frame = 0, RendererBindings_Cb_uber = 1,
      RendererBindings_Cb_light = 2, RendererBindings_Cb_material = 3,
      RendererBindings_Srv_noise_normal = 0, RendererBindings_Srv_noise_blue = 1\<rparr>"

definition example_env :: rhi_env where
  "example_env =
     \<lparr>defs = example_defs, textures = (\<lambda>_. example_texture), DefaultTextureTransparent = 0,
      m_tex_default_noise_normal = Some 1, m_tex_default_noise_blue = Some 2,
      PresentEnabled = True, CurrentDescriptorSetLayout = True, descriptor_calls = [],
      log_entries = [], context_profiler = False, context_markers = False,
      m_rhi_pipeline_barriers = 0, m_rhi_draw = 0, m_rhi_dispatch = 0,
      m_rhi_bindings_buffer_vertex = 0, m_rhi_bindings_buffer_index = 0,
      m_rhi_bindings_pipeline = 0, m_rhi_bindings_descriptor_set = 0,
      time_blocks_started = 0, time_blocks_ended = 0\<rparr>"

definition example_cl :: RHI_CommandList where
  "example_cl =
     \<lparr>m_state = Idle, m_flushed = False, m_discard = False, m_render_pass_active = False,
      m_pipeline_active = False, m_pipeline = None, m_pipeline_state = None,
      m_vertex_buffer_id = 0, m_vertex_buffer_offset = 0, m_index_buffer_id = 0,
      m_index_buffer_offset = 0, m_resource = True, m_query_pool = True,
      m_timestamp_index = 0, vk_calls = []\<rparr>"

definition example_pipeline_state :: RHI_PipelineState where
  "example_pipeline_state =
     \<lparr>render_target_color_textures = [Some 3, Some 4, Some 5, None],
      render_target_depth_texture = None, render_target_swapchain = False,
      clear_color = [Vector4 0 0 0 0, Vector4 1 1 1 1, Vector4 2 2 2 2, Vector4 0x7F800000 0 0 0],
      clear_depth = 0x7F800000, clear_stencil = 0xFFFFFFFF, IsCompute = False,
      HasClearValues = True, GetRenderPass = True, GetFrameBuffer = True, GetWidth = 4,
      GetHeight = 4, pass_name = Some ''Pass_GBuffer'', profile = False, mark = False\<rparr>"

definition example_driver :: driver where
  "example_driver =
     \<lparr>vkBeginCommandBuffer_ok = True, vkEndCommandBuffer_ok = True,
      vkResetCommandBuffer_ok = True, QueueSubmit_ok = True, fence_Wait_ok = True,
      processed_semaphore_idle = True,
      GetPipeline_result = Some \<lparr>GetPipelineState = Some example_pipeline_state,
                                     GetPipeline = True\<rparr>,
      layout_after_SetPipelineState = True, GetDescriptorSet_result = True,
      GetDescriptorSet_set = Some True, Create_ok = True, Map_ok = True, Unmap_ok = True,
      Queue_WaitAll_ok = True\<rparr>"

definition example_dist2 :: "Vector3 \<Rightarrow> Vector3 \<Rightarrow> int" where
  "example_dist2 = (\<lambda>(a1, a2, a3) (b1, b2, b3).
     (uint a1 - uint b1)\<^sup>2 + (uint a2 - uint b2)\<^sup>2 + (uint a3 - uint b3)\<^sup>2)"

definition example_below_one :: "float \<Rightarrow> bool" where
  "example_below_one v = (v < 0x3F800000)"

definition example_camera :: Camera where
  "example_camera = \<lparr>GetClearColor = Vector4 0x3F000000 0x3F000000 0x3F000000 0x3F800000,
                      GetPosition = (0, 0, 0)\<rparr>"

definition example_camera_entity :: Entity where
  "example_camera_entity =
     \<lparr>IsActive = True, GetRenderable = None, GetLight = None, GetCamera = Some example_camera\<rparr>"

definition example_renderable_at :: "float \<Rightarrow> Entity" where
  "example_renderable_at px =
     \<lparr>IsActive = True,
      GetRenderable = Some \<lparr>GetMaterial = Some \<lparr>GetColorAlbedo =
                               Vector4 0x3F800000 0x3F800000 0x3F800000 0x3F800000\<rparr>,
                            GetAabbCenter = (px, 0, 0)\<rparr>,
      GetLight = None, GetCamera = None\<rparr>"

definition example_block :: "nat cb_block" where
  "example_block =
     \<lparr>cpu = 11, cpu_previous = 10,
      gpu = \<lparr>IsDynamic = True, OffsetCount = 4, Stride = 256, OffsetIndexDynamic = 3,
             memory = (\<lambda>_. None)\<rparr>,
      offset_index = 3\<rparr>"













section \<open>Helper lemmas\<close>

lemma then_do_Inr [simp]: "then_do (Inr a) f = f a"
  by (simp add: then_do_def)

lemma then_do_Inl [simp]: "then_do (Inl e) f = Inl e"
  by (simp add: then_do_def)

lemma SP_ASSERT_True [simp]: "SP_ASSERT True k = k"
  by (simp add: SP_ASSERT_def)

lemma SP_ASSERT_False [simp]: "SP_ASSERT False k = Inl Assert_Failed"
  by (simp add: SP_ASSERT_def)



lemma RenderablesSort_sorted:
  "2 < length rs \<Longrightarrow> sorted (map (comparison_op dist2 cam) (RenderablesSort dist2 (Some cam) rs))"
  by (simp add: RenderablesSort_def)

lemma next_power_of_two_from_props:
  assumes "p = 2 ^ k" and "\<forall>j. n \<le> 2 ^ j \<longrightarrow> p \<le> (2::nat) ^ j"
  shows "(\<exists>k'. next_power_of_two_from p n = 2 ^ k') \<and> n \<le> next_power_of_two_from p n \<and>
         (\<forall>j. n \<le> 2 ^ j \<longrightarrow> next_power_of_two_from p n \<le> 2 ^ j)"
  using assms
proof (induction p n arbitrary: k rule: next_power_of_two_from.induct)
  case (1 p n)
  show ?case
  proof (cases "n \<le> p \<or> p = 0")
    case True
    with "1.prems" show ?thesis
      by (subst next_power_of_two_from.simps, subst next_power_of_two_from.simps,
          subst next_power_of_two_from.simps) auto
  next
    case False
    have lb: "\<forall>j. n \<le> 2 ^ j \<longrightarrow> 2 * p \<le> (2::nat) ^ j"
    proof (intro allI impI)
      fix j assume nj: "n \<le> 2 ^ j"
      from False "1.prems" have "(2::nat) ^ k < n" by auto
      with nj have "(2::nat) ^ k < 2 ^ j" by linarith
      then have "k < j" by simp
      then have "(2::nat) ^ Suc k \<le> 2 ^ j" by (intro power_increasing) auto
      with "1.prems" show "2 * p \<le> 2 ^ j" by simp
    qed
    have "2 * p = 2 ^ Suc k" using "1.prems" by simp
    from "1.IH" [OF False this lb] False show ?thesis
      by (subst next_power_of_two_from.simps, subst next_power_of_two_from.simps,
          subst next_power_of_two_from.simps) auto
  qed
qed

lemma next_power_of_two_smallest:
  "(\<exists>k. next_power_of_two_from 1 n = 2 ^ k) \<and> n \<le> next_power_of_two_from 1 n \<and>
   (\<forall>j. n \<le> 2 ^ j \<longrightarrow> next_power_of_two_from 1 n \<le> 2 ^ j)"
  by (rule next_power_of_two_from_props [of 1 0]) auto

lemma NextPowerOfTwo_unat:
  assumes "unat v \<le> 2 ^ 31"
  shows "unat (NextPowerOfTwo v) = next_power_of_two_from 1 (unat v)"
proof -
  from next_power_of_two_smallest [of "unat v"] assms
  have "next_power_of_two_from 1 (unat v) \<le> 2 ^ 31"
    by blast
  then have "next_power_of_two_from 1 (unat v) < 2 ^ 32" by simp
  then show ?thesis
    by (simp add: NextPowerOfTwo_def unat_of_nat)
qed

lemma NextPowerOfTwo_smallest:
  assumes "unat v \<le> 2 ^ 31"
  shows "(\<exists>k. unat (NextPowerOfTwo v) = 2 ^ k) \<and> unat v \<le> unat (NextPowerOfTwo v) \<and>
         (\<forall>j. unat v \<le> 2 ^ j \<longrightarrow> unat (NextPowerOfTwo v) \<le> 2 ^ j)"
  using next_power_of_two_smallest [of "unat v"] NextPowerOfTwo_unat [OF assms] by simp

lemma unat_plus_small:
  fixes i :: "32 word"
  assumes "unat i + 2 \<le> 2 ^ 31"
  shows "unat (i + 1) = unat i + 1" and "unat (i + 2) = unat i + 2"
  using assms by (simp_all add: unat_word_ariths)

lemma update_skip:
  "cpu b = cpu_previous b \<Longrightarrow> update_dynamic_buffer d c b = Inr (True, c, b)"
  by (simp add: update_dynamic_buffer_def)

lemma update_no_growth:
  assumes "IsDynamic (gpu b)" "Map_ok d" "cpu b \<noteq> cpu_previous b"
      and "offset_index b + 1 < OffsetCount (gpu b)"
  shows "update_dynamic_buffer d c b =
         Inr (Unmap_ok d, c,
              b\<lparr>offset_index := offset_index b + 1, cpu_previous := cpu b,
                gpu := (gpu b)\<lparr>OffsetIndexDynamic := offset_index b + 1,
                       memory := (memory (gpu b))
                         (ucast (offset_index b + 1) * Stride (gpu b) := Some (cpu b))\<rparr>\<rparr>)"
  using assms by (simp add: update_dynamic_buffer_def Let_def not_le [symmetric])

lemma update_growth:
  assumes "IsDynamic (gpu b)" "Create_ok d" "Map_ok d" "cpu b \<noteq> cpu_previous b"
      and "OffsetCount (gpu b) \<le> offset_index b + 1" and "Flush d True c = Inr (fl, c1)"
  shows "update_dynamic_buffer d c b =
         Inr (Unmap_ok d, log_ctx (LOG_INFO ''Increased buffer offsets'') c1,
              b\<lparr>offset_index := offset_index b + 1, cpu_previous := cpu b,
                gpu := (gpu b)\<lparr>OffsetCount := NextPowerOfTwo (offset_index b + 2),
                       OffsetIndexDynamic := offset_index b + 1,
                       memory := (\<lambda>_. None)
                         (ucast (offset_index b + 1) * Stride (gpu b) := Some (cpu b))\<rparr>\<rparr>)"
  using assms by (simp add: update_dynamic_buffer_def Let_def Create_def add.assoc)

lemma rebind_frame:
  "update_dynamic_buffer d c
     ((m_cb_frame r)\<lparr>cpu := (cpu (m_cb_frame r))\<lparr>directional_light_intensity :=
        directional_intensity (m_entities r Object_Light)
          (directional_light_intensity (cpu (m_cb_frame r)))\<rparr>\<rparr>) = Inr (True, c', b') \<Longrightarrow>
   Update_Cb_Frame d c r =
     then_do (SetConstantBuffer (RendererBindings_Cb_frame (defs (snd c'))) cb_frame_gpu c')
       (\<lambda>c''. Inr (True, c'', r\<lparr>m_cb_frame := b'\<rparr>))"
  by (simp add: Update_Cb_Frame_def Let_def)

lemma rebind_uber:
  "update_dynamic_buffer d c (m_cb_uber r) = Inr (True, c', b') \<Longrightarrow>
   Update_Cb_Uber d c r =
     then_do (SetConstantBuffer (RendererBindings_Cb_uber (defs (snd c'))) cb_uber_gpu c')
       (\<lambda>c''. Inr (True, c'', r\<lparr>m_cb_uber := b'\<rparr>))"
  by (simp add: Update_Cb_Uber_def Let_def)

lemma rebind_light:
  "m_camera r \<noteq> None \<Longrightarrow>
   update_dynamic_buffer d c ((m_cb_light r)\<lparr>cpu := light_members out l r\<rparr>)
     = Inr (True, c', b') \<Longrightarrow>
   Update_Cb_Light out d c (Some l) r =
     then_do (SetConstantBuffer (RendererBindings_Cb_light (defs (snd c'))) cb_light_gpu c')
       (\<lambda>c''. Inr (True, c'', r\<lparr>m_cb_light := b'\<rparr>))"
  by (auto simp: Update_Cb_Light_def Let_def)

lemma rebind_material:
  "update_dynamic_buffer d c ((m_cb_material r)\<lparr>cpu := material_members out r\<rparr>)
     = Inr (True, c', b') \<Longrightarrow>
   Update_Cb_Material out d c r =
     then_do (SetConstantBuffer (RendererBindings_Cb_material (defs (snd c'))) cb_material_gpu c')
       (\<lambda>c''. Inr (True, c'', r\<lparr>m_cb_material := b'\<rparr>))"
  by (simp add: Update_Cb_Material_def Let_def)

lemma SetConstantBuffer_binds:
  "m_state cl = Recording \<Longrightarrow> CurrentDescriptorSetLayout env \<Longrightarrow>
   SetConstantBuffer slot cb (cl, env) = Inr (cl, cache_call (Cache_SetConstantBuffer slot cb) env)"
  by simp


















lemma set_blocks_keeps [simp]:
  "m_cb_frame (set_blocks bs r) = m_cb_frame r" "m_frame_num (set_blocks bs r) = m_frame_num r"
  "m_cmd_current (set_blocks bs r) = m_cmd_current r"
  by (cases bs; simp)+







lemma advance_frame_simps [simp]:
  "m_frame_num (advance_frame r) = m_frame_num r + 1"
  "m_cb_frame (advance_frame r) = m_cb_frame r"
  by (simp_all add: advance_frame_def Let_def)


















section \<open>The command list state machine\<close>



section \<open>Layout transitions\<close>

text \<open>
  C7. \<^verbatim>\<open>SetLayout\<close> with the layout the addressed mip already has (mip 0 when no mip is
  named) is a no-op: the call returns the command list and the surroundings it was given, so
  no barrier is recorded, the profiler's barrier counter keeps its value and every stored
  per-mip layout is unchanged. The assertion on per-mip views has to hold when a mip is named.
\<close>

theorem SetLayout_current_layout_is_noop:
  assumes "mip = - 1 \<or> HasPerMipView (textures env this)"
      and "GetLayout (textures env this) (if mip = - 1 then 0 else mip) = Inr new_layout"
  shows "SetLayout this new_layout cmd_list mip ranged env = Inr (cmd_list, env)"
  using assms by (auto simp: SetLayout_def Let_def)

theorem SetLayout_current_layout_is_noop_witness:
  "SetLayout 7 Shader_Read_Only_Optimal (Some example_cl) (- 1) True example_env
     = Inr (Some example_cl, example_env)"
  by (rule SetLayout_current_layout_is_noop)
     (simp_all add: example_env_def example_texture_def GetLayout_def)

text \<open>
  C10. When the layout of the addressed mip is \<^verbatim>\<open>Undefined\<close>, \<^verbatim>\<open>SetLayout\<close> returns
  without recording a barrier and without storing the new layout, whatever layout was asked
  for: the requested transition does not take effect.
\<close>

theorem SetLayout_Undefined_is_ignored:
  assumes "mip = - 1 \<or> HasPerMipView (textures env this)"
      and "GetLayout (textures env this) (if mip = - 1 then 0 else mip) = Inr Undefined"
  shows "SetLayout this new_layout cmd_list mip ranged env = Inr (cmd_list, env)"
  using assms by (auto simp: SetLayout_def Let_def)

theorem SetLayout_Undefined_is_ignored_witness:
  "SetLayout 7 Shader_Read_Only_Optimal (Some example_cl) (- 1) True
     (example_env\<lparr>textures := (\<lambda>_. example_texture\<lparr>m_layout := replicate 12 Undefined\<rparr>)\<rparr>)
   = Inr (Some example_cl,
          example_env\<lparr>textures := (\<lambda>_. example_texture\<lparr>m_layout := replicate 12 Undefined\<rparr>)\<rparr>)"
  by (rule SetLayout_Undefined_is_ignored)
     (simp_all add: example_env_def example_texture_def GetLayout_def)

section \<open>Depth sorting of the buckets\<close>

text \<open>
  C9. After a renderables-acquire with an active camera the opaque and the transparent bucket
  should be sorted front to back. \<^verbatim>\<open>RenderablesSort\<close> returns without sorting when a bucket
  has two entries or fewer: with a camera at the origin and two opaque entities acquired in
  the order far (x = 3.0), near (x = 1.0), the opaque bucket stays far, near, and its squared
  camera distances are not in ascending order.
\<close>

theorem RenderablesSort_two_entities_unsorted:
  "fst (OnRenderablesAcquire example_dist2 example_below_one
          [Some example_camera_entity, Some (example_renderable_at 0x40400000),
           Some (example_renderable_at 0x3F800000)]) Object_GeometryOpaque
     = [example_renderable_at 0x40400000, example_renderable_at 0x3F800000] \<and>
   snd (OnRenderablesAcquire example_dist2 example_below_one
          [Some example_camera_entity, Some (example_renderable_at 0x40400000),
           Some (example_renderable_at 0x3F800000)]) = Some example_camera \<and>
   \<not> sorted (map (comparison_op example_dist2 example_camera)
               [example_renderable_at 0x40400000, example_renderable_at 0x3F800000])"
  by (simp add: OnRenderablesAcquire_def acquire_entity_def RenderablesSort_def
        example_camera_entity_def example_renderable_at_def example_below_one_def
        example_dist2_def comparison_op_def example_camera_def Let_def)

section \<open>Dynamic constant buffers\<close>

text \<open>
  C2. The update of a dynamic constant buffer, for a block whose \<^verbatim>\<open>Create\<close> and \<^verbatim>\<open>Map\<close>
  succeed and whose offset index is below \<open>2\<^sup>3\<^sup>1 - 1\<close>:
  \<^item> when the CPU struct equals its value at the last upload, nothing changes;
  \<^item> otherwise the offset index advances by one; when it stays below the buffer's number of
    offsets, the struct is written at \<open>offset_index * stride\<close>, the dynamic offset is set and
    neither the command list nor the number of offsets changes;
  \<^item> when it reaches the number of offsets, the command list is flushed once (the resulting
    command list is the one \<^verbatim>\<open>Flush(true)\<close> returns), the buffer is created again with
    \<^verbatim>\<open>NextPowerOfTwo(offset_index + 1)\<close> offsets, a power of two that is at least the
    requested index + 1 and no larger than any other such power, and the struct is written
    at \<open>offset_index * stride\<close>;
  \<^item> each of \<^verbatim>\<open>Update_Cb_Frame\<close>, \<^verbatim>\<open>Update_Cb_Uber\<close>, \<^verbatim>\<open>Update_Cb_Light\<close> and
    \<^verbatim>\<open>Update_Cb_Material\<close> then calls \<^verbatim>\<open>SetConstantBuffer\<close> on its buffer, which on a
    recording command list with a current descriptor set layout binds it.
\<close>

theorem dynamic_buffer_update:
  fixes b :: "'T cb_block"
  assumes "IsDynamic (gpu b)" and "Create_ok d" and "Map_ok d"
      and "unat (offset_index b) + 2 \<le> 2 ^ 31"
  shows
   "(cpu b = cpu_previous b \<longrightarrow> update_dynamic_buffer d c b = Inr (True, c, b)) \<and>
    (cpu b \<noteq> cpu_previous b \<and> offset_index b + 1 < OffsetCount (gpu b) \<longrightarrow>
       update_dynamic_buffer d c b =
         Inr (Unmap_ok d, c,
              b\<lparr>offset_index := offset_index b + 1, cpu_previous := cpu b,
                gpu := (gpu b)\<lparr>OffsetIndexDynamic := offset_index b + 1,
                       memory := (memory (gpu b))
                         (ucast (offset_index b + 1) * Stride (gpu b) := Some (cpu b))\<rparr>\<rparr>)) \<and>
    (cpu b \<noteq> cpu_previous b \<and> OffsetCount (gpu b) \<le> offset_index b + 1 \<and>
     Flush d True c = Inr (fl, c1) \<longrightarrow>
       update_dynamic_buffer d c b =
         Inr (Unmap_ok d, log_ctx (LOG_INFO ''Increased buffer offsets'') c1,
              b\<lparr>offset_index := offset_index b + 1, cpu_previous := cpu b,
                gpu := (gpu b)\<lparr>OffsetCount := NextPowerOfTwo (offset_index b + 2),
                       OffsetIndexDynamic := offset_index b + 1,
                       memory := (\<lambda>_. None)
                         (ucast (offset_index b + 1) * Stride (gpu b) := Some (cpu b))\<rparr>\<rparr>) \<and>
       (\<exists>k. unat (NextPowerOfTwo (offset_index b + 2)) = 2 ^ k) \<and>
       unat (offset_index b + 1) + 1 \<le> unat (NextPowerOfTwo (offset_index b + 2)) \<and>
       (\<forall>j. unat (offset_index b + 1) + 1 \<le> 2 ^ j \<longrightarrow>
            unat (NextPowerOfTwo (offset_index b + 2)) \<le> 2 ^ j)) \<and>
    (update_dynamic_buffer d c
       ((m_cb_frame r)\<lparr>cpu := (cpu (m_cb_frame r))\<lparr>directional_light_intensity :=
          directional_intensity (m_entities r Object_Light)
            (directional_light_intensity (cpu (m_cb_frame r)))\<rparr>\<rparr>) = Inr (True, c', bf) \<longrightarrow>
       Update_Cb_Frame d c r =
         then_do (SetConstantBuffer (RendererBindings_Cb_frame (defs (snd c'))) cb_frame_gpu c')
           (\<lambda>c''. Inr (True, c'', r\<lparr>m_cb_frame := bf\<rparr>))) \<and>
    (update_dynamic_buffer d c (m_cb_uber r) = Inr (True, c', bu) \<longrightarrow>
       Update_Cb_Uber d c r =
         then_do (SetConstantBuffer (RendererBindings_Cb_uber (defs (snd c'))) cb_uber_gpu c')
           (\<lambda>c''. Inr (True, c'', r\<lparr>m_cb_uber := bu\<rparr>))) \<and>
    (m_camera r \<noteq> None \<and>
     update_dynamic_buffer d c ((m_cb_light r)\<lparr>cpu := light_members out l r\<rparr>)
       = Inr (True, c', bl) \<longrightarrow>
       Update_Cb_Light out d c (Some l) r =
         then_do (SetConstantBuffer (RendererBindings_Cb_light (defs (snd c'))) cb_light_gpu c')
           (\<lambda>c''. Inr (True, c'', r\<lparr>m_cb_light := bl\<rparr>))) \<and>
    (update_dynamic_buffer d c ((m_cb_material r)\<lparr>cpu := material_members out r\<rparr>)
       = Inr (True, c', bm) \<longrightarrow>
       Update_Cb_Material out d c r =
         then_do (SetConstantBuffer (RendererBindings_Cb_material (defs (snd c')))
                    cb_material_gpu c')
           (\<lambda>c''. Inr (True, c'', r\<lparr>m_cb_material := bm\<rparr>))) \<and>
    (m_state cl = Recording \<and> CurrentDescriptorSetLayout env \<longrightarrow>
       SetConstantBuffer slot cb (cl, env)
         = Inr (cl, cache_call (Cache_SetConstantBuffer slot cb) env))"
proof -
  have pow: "(\<exists>k. unat (NextPowerOfTwo (offset_index b + 2)) = 2 ^ k) \<and>
       unat (offset_index b + 1) + 1 \<le> unat (NextPowerOfTwo (offset_index b + 2)) \<and>
       (\<forall>j. unat (offset_index b + 1) + 1 \<le> 2 ^ j \<longrightarrow>
            unat (NextPowerOfTwo (offset_index b + 2)) \<le> 2 ^ j)"
    using NextPowerOfTwo_smallest [of "offset_index b + 2"] unat_plus_small [OF assms(4)] assms(4)
    by simp
  show ?thesis
    using assms(1-3) pow
    by (intro conjI impI update_skip update_no_growth update_growth rebind_frame rebind_uber
          rebind_light rebind_material SetConstantBuffer_binds; (elim conjE)?; assumption?)
qed

theorem dynamic_buffer_update_witness:
  "update_dynamic_buffer example_driver (example_cl\<lparr>m_state := Recording\<rparr>, example_env)
     example_block
   = Inr (True,
          (example_cl\<lparr>m_state := Recording, m_flushed := True, m_timestamp_index := 0,
                      vk_calls := [Vk_EndCommandBuffer, Vk_BeginCommandBuffer, Vk_ResetQueryPool]\<rparr>,
           example_env\<lparr>descriptor_calls := [Cache_GrowIfNeeded],
                       log_entries := [LOG_INFO ''Increased buffer offsets'']\<rparr>),
          \<lparr>cpu = 11, cpu_previous = 11,
           gpu = \<lparr>IsDynamic = True, OffsetCount = 8, Stride = 256, OffsetIndexDynamic = 4,
                  memory = (\<lambda>_. None)(1024 := Some 11)\<rparr>,
           offset_index = 4\<rparr>)"
proof -
  have flush: "Flush example_driver True (example_cl\<lparr>m_state := Recording\<rparr>, example_env)
     = Inr (True,
          (example_cl\<lparr>m_state := Recording, m_flushed := True, m_timestamp_index := 0,
                      vk_calls := [Vk_EndCommandBuffer, Vk_BeginCommandBuffer, Vk_ResetQueryPool]\<rparr>,
           example_env\<lparr>descriptor_calls := [Cache_GrowIfNeeded]\<rparr>))"
    by (simp add: example_cl_def example_env_def example_driver_def record_cmd_def
          renders_to_swapchain_def cache_call_def)
  have np: "NextPowerOfTwo 5 = 8"
    by (simp add: NextPowerOfTwo_def next_power_of_two_from.simps)
  from dynamic_buffer_update
         [where b = example_block and d = example_driver and fl = True
            and c = "(example_cl\<lparr>m_state := Recording\<rparr>, example_env)"]
  show ?thesis
    using flush np
    by (simp add: example_block_def example_driver_def log_msg_def example_env_def)
qed

section \<open>Render passes without a draw\<close>



section \<open>Binding textures\<close>





section \<open>The tick\<close>















end
